theory Spec2Isabelle
  imports Complex_Main
begin

section \<open>Values, errors and the outside world\<close>

text \<open>
  The monitor is a single Python module. Its numbers are Python ints (the intervals read
  with \<open>int(...)\<close>, the attempt counters) and Python floats (the backoff factor, the retry
  delay, the clock). Ints are modelled by \<^typ>\<open>int\<close>; floats by the rational number they
  denote, with exact arithmetic: the rounding of float products, the conversion of ints
  beyond \<open>2 ^ 53\<close>, NaN and the infinities are outside this model. A pair is the tuple
  \<open>(dc, srv)\<close> of two strings.
\<close>

type_synonym pair = "string \<times> string"

text \<open>The exceptions that can leave a function of the module uncaught.\<close>

datatype error = ValueError | KeyError

text \<open>
  What the network answers. Every call of \<open>requests.get\<close>, of the SSH session inside
  \<open>execute_ssh_command\<close> and of \<open>requests.post\<close> takes some time and either produces a
  result or raises; the environment fixes, for the n-th call of each kind, how long it
  takes and what comes back.
\<close>

datatype http_outcome = Http_status int | Http_exception

datatype ssh_outcome = Ssh_output string | Ssh_exception string

datatype telegram_outcome = Telegram_ok | Telegram_not_ok | Telegram_exception

record environment =
  getenv :: "string \<Rightarrow> string option"
  http_get :: "string \<Rightarrow> nat \<Rightarrow> rat \<times> http_outcome"
  ssh_session :: "nat \<Rightarrow> rat \<times> ssh_outcome"
  telegram_post :: "nat \<Rightarrow> rat \<times> telegram_outcome"

text \<open>
  The observable actions of the program, in the order in which they happen: a request sent
  by \<open>requests.get\<close>, a \<open>time.sleep\<close>, a call of \<open>execute_ssh_command\<close> (with the host,
  the port, the user name, the credential it picks and the command), a message handed to
  \<open>requests.post\<close> by \<open>send_telegram_alert\<close> (with the pair, the seconds to the next check,
  the message, the attempt count shown when it is positive, and the recovered flag), and a
  call of the logger. Only the calls to the network and the sleeps take time.
\<close>

datatype credential = Pkey string | Password "string option"

datatype message =
    Recovery_msg pair int
  | Broken_msg int string
  | Still_down_msg int string int rat

datatype level = Debug | Info | Warning | Error

datatype log_record =
    Attempt_status string int int int
  | Attempt_exception string int int
  | Ssh_error "string option" string
  | Command_executed pair "string option" string string
  | Telegram_missing
  | Telegram_api_error
  | Telegram_send_error
  | Url_missing string
  | Status_msg pair string bool rat int
  | Recovery_logged pair int
  | Ssh_incomplete string
  | Missing_params "string list"
  | Started
  | Running_command string int string
  | Command_result string bool int

datatype event =
    Http_request string
  | Slept rat
  | Ssh_command "string option" int "string option" credential string
  | Telegram_message pair rat message "int option" bool
  | Logged level log_record

record world =
  clock :: rat
  http_calls :: nat
  ssh_calls :: nat
  telegram_calls :: nat
  trace :: "event list"

definition emit :: "event \<Rightarrow> world \<Rightarrow> world" where
  "emit e w = w\<lparr>trace := trace w @ [e]\<rparr>"

text \<open>\<open>time.sleep(d)\<close> raises ValueError on a negative length and otherwise lets \<open>d\<close> seconds pass.\<close>

definition time_sleep :: "rat \<Rightarrow> world \<Rightarrow> error + world" where
  "time_sleep d w =
     (if d < 0 then Inl ValueError
      else Inr (emit (Slept d) (w\<lparr>clock := clock w + d\<rparr>)))"

definition requests_get :: "environment \<Rightarrow> string \<Rightarrow> world \<Rightarrow> http_outcome \<times> world" where
  "requests_get env url w =
     (case http_get env url (http_calls w) of
        (latency, outcome) \<Rightarrow>
          (outcome,
           emit (Http_request url)
             (w\<lparr>clock := clock w + latency, http_calls := Suc (http_calls w)\<rparr>)))"

text \<open>
  Python's \<open>round(x, ndigits)\<close>: the nearest multiple of \<open>10 ^ -ndigits\<close>, a tie going
  to the even one.
\<close>

definition py_round :: "rat \<Rightarrow> nat \<Rightarrow> rat" where
  "py_round x ndigits =
     (let scale = 10 ^ ndigits;
          y = x * scale;
          f = \<lfloor>y\<rfloor>;
          d = y - of_int f
      in of_int (if d < 1 / 2 then f
                 else if 1 / 2 < d then f + 1
                 else if even f then f else f + 1) / scale)"

text \<open>
  Modelled from the spec: the property \<open>ok\<close> of a response belongs to the HTTP client
  library, which is not part of the repository. The spec describes it: an attempt succeeds
  if the response status is in the success range, 2xx to 3xx inclusive.
\<close>

definition response_ok :: "int \<Rightarrow> bool" where
  "response_ok status_code \<longleftrightarrow> 200 \<le> status_code \<and> status_code \<le> 399"

section \<open>The prober: \<open>check_service\<close>\<close>

text \<open>
  Whether the body reaches \<open>return True, elapsed, attempt\<close>: the request did not raise
  and \<open>response.ok\<close> holds.
\<close>

definition attempt_ok :: "http_outcome \<Rightarrow> bool" where
  "attempt_ok outcome =
     (case outcome of
        Http_status status_code \<Rightarrow> response_ok status_code
      | Http_exception \<Rightarrow> False)"

text \<open>
  One pass through the body of the \<open>for attempt in range(1, max_attempts + 1)\<close> loop.
  The result \<open>Inr (Some r)\<close> is the \<open>return\<close> inside the loop, \<open>Inr None\<close> falls through
  to the next attempt, and \<open>Inl e\<close> is an exception that nothing catches: the
  \<open>try\<close> covers the request only, the \<open>time.sleep\<close> stands after it.
\<close>

definition attempt_body ::
  "environment \<Rightarrow> string \<Rightarrow> int \<Rightarrow> rat \<Rightarrow> int \<Rightarrow> world
     \<Rightarrow> (error + (bool \<times> rat \<times> int) option) \<times> world" where
  "attempt_body env url max_attempts retry_delay attempt w =
     (let start_time = clock w in
      case requests_get env url w of
        (outcome, w1) \<Rightarrow>
          let elapsed = py_round ((clock w1 - start_time) * 1000) 2
          in if attempt_ok outcome then (Inr (Some (True, elapsed, attempt)), w1)
             else
               let w2 = (case outcome of
                           Http_status status_code \<Rightarrow>
                             emit (Logged Warning
                                     (Attempt_status url attempt max_attempts status_code)) w1
                         | Http_exception \<Rightarrow>
                             emit (Logged Warning
                                     (Attempt_exception url attempt max_attempts)) w1)
               in if attempt < max_attempts
                  then (case time_sleep retry_delay w2 of
                          Inl e \<Rightarrow> (Inl e, w2)
                        | Inr w3 \<Rightarrow> (Inr None, w3))
                  else (Inr None, w2))"

function check_loop ::
  "environment \<Rightarrow> string \<Rightarrow> int \<Rightarrow> rat \<Rightarrow> int \<Rightarrow> world
     \<Rightarrow> (error + bool \<times> rat \<times> int) \<times> world" where
  "check_loop env url max_attempts retry_delay attempt w =
     (if max_attempts < attempt then (Inr (False, 0, max_attempts), w)
      else
        case attempt_body env url max_attempts retry_delay attempt w of
          (Inl e, w') \<Rightarrow> (Inl e, w')
        | (Inr (Some r), w') \<Rightarrow> (Inr r, w')
        | (Inr None, w') \<Rightarrow> check_loop env url max_attempts retry_delay (attempt + 1) w')"
  by pat_completeness auto
termination
  by (relation "measure (\<lambda>(env, url, max_attempts, retry_delay, attempt, w).
                  nat (max_attempts + 1 - attempt))") auto

definition check_service ::
  "environment \<Rightarrow> string \<Rightarrow> int \<Rightarrow> rat \<Rightarrow> world \<Rightarrow> (error + bool \<times> rat \<times> int) \<times> world" where
  "check_service env url max_attempts retry_delay w =
     check_loop env url max_attempts retry_delay 1 w"

section \<open>Configuration of a site: \<open>get_ssh_config\<close>\<close>

text \<open>Python's truth value of what \<open>os.getenv\<close> returns: neither \<open>None\<close> nor the empty string.\<close>

definition truthy :: "string option \<Rightarrow> bool" where
  "truthy v = (case v of None \<Rightarrow> False | Some s \<Rightarrow> s \<noteq> [])"

text \<open>
  \<open>int(s)\<close> on a string, for ASCII text: surrounding whitespace is dropped, one sign is
  allowed, then decimal digits follow, single underscores allowed between two digits.
  Anything else raises ValueError, here \<open>None\<close>.
\<close>

definition is_space :: "char \<Rightarrow> bool" where
  "is_space c \<longleftrightarrow> (of_char c :: nat) \<in> {9, 10, 11, 12, 13, 28, 29, 30, 31, 32}"

definition is_digit :: "char \<Rightarrow> bool" where
  "is_digit c \<longleftrightarrow> 48 \<le> (of_char c :: nat) \<and> (of_char c :: nat) \<le> 57"

definition digit_value :: "char \<Rightarrow> nat" where
  "digit_value c = of_char c - 48"

definition strip :: "string \<Rightarrow> string" where
  "strip s = dropWhile is_space (rev (dropWhile is_space (rev s)))"

fun digits_value :: "nat \<Rightarrow> string \<Rightarrow> nat option" where
  "digits_value acc [] = Some acc"
| "digits_value acc (c # cs) =
     (if is_digit c then digits_value (10 * acc + digit_value c) cs
      else if c = CHR ''_'' then
        (case cs of
           [] \<Rightarrow> None
         | d # ds \<Rightarrow>
             if is_digit d then digits_value (10 * acc + digit_value d) ds else None)
      else None)"

definition py_int :: "string \<Rightarrow> int option" where
  "py_int s =
     (let t = strip s;
          negative = (case t of [] \<Rightarrow> False | c # r \<Rightarrow> c = CHR ''-'');
          u = (case t of
                 [] \<Rightarrow> []
               | c # r \<Rightarrow> if c = CHR ''-'' \<or> c = CHR ''+'' then r else t)
      in case u of
           [] \<Rightarrow> None
         | c # r \<Rightarrow>
             if is_digit c
             then map_option (\<lambda>n. if negative then - int n else int n)
                    (digits_value (digit_value c) r)
             else None)"

record ssh_config =
  host :: "string option"
  port :: int
  username :: "string option"
  password :: "string option"
  key :: "string option"

text \<open>\<open>os.getenv(f"{prefix}PORT", "22")\<close>\<close>

definition port_setting :: "environment \<Rightarrow> string \<Rightarrow> string" where
  "port_setting env dc_name =
     (case getenv env (dc_name @ ''_SSH_'' @ ''PORT'') of None \<Rightarrow> ''22'' | Some v \<Rightarrow> v)"

definition get_ssh_config :: "environment \<Rightarrow> string \<Rightarrow> error + ssh_config" where
  "get_ssh_config env dc_name =
     (let prefix = dc_name @ ''_SSH_'' in
      case py_int (port_setting env dc_name) of
        None \<Rightarrow> Inl ValueError
      | Some p \<Rightarrow>
          Inr \<lparr>host = getenv env (prefix @ ''HOST''),
               port = p,
               username = getenv env (prefix @ ''USERNAME''),
               password = getenv env (prefix @ ''PASSWORD''),
               key = getenv env (prefix @ ''KEY_PATH'')\<rparr>)"

text \<open>\<open>all(dc_config.values())\<close>: every one of the five values is true in Python's sense.\<close>

definition all_values :: "ssh_config \<Rightarrow> bool" where
  "all_values dc_config \<longleftrightarrow>
     truthy (host dc_config) \<and> port dc_config \<noteq> 0 \<and> truthy (username dc_config)
     \<and> truthy (password dc_config) \<and> truthy (key dc_config)"

section \<open>The remediator: \<open>execute_ssh_command\<close>\<close>

text \<open>
  The credential is the private key when \<open>dc_config.get('key')\<close> is true and the password
  otherwise. Loading the key, connecting, running the command and reading its output all
  stand inside the \<open>try\<close>: whatever raises there ends in \<open>return False, error\<close>.
\<close>

definition choose_credential :: "ssh_config \<Rightarrow> credential" where
  "choose_credential dc_config =
     (case key dc_config of
        None \<Rightarrow> Password (password dc_config)
      | Some k \<Rightarrow> if k \<noteq> [] then Pkey k else Password (password dc_config))"

definition execute_ssh_command ::
  "environment \<Rightarrow> ssh_config \<Rightarrow> string \<Rightarrow> pair \<Rightarrow> world \<Rightarrow> (bool \<times> string) \<times> world" where
  "execute_ssh_command env dc_config command pair w =
     (case ssh_session env (ssh_calls w) of
        (latency, outcome) \<Rightarrow>
          let w1 = emit (Ssh_command (host dc_config) (port dc_config) (username dc_config)
                           (choose_credential dc_config) command)
                     (w\<lparr>clock := clock w + latency, ssh_calls := Suc (ssh_calls w)\<rparr>)
          in case outcome of
               Ssh_output output \<Rightarrow>
                 ((True, output),
                  emit (Logged Info (Command_executed pair (host dc_config) command output)) w1)
             | Ssh_exception err \<Rightarrow>
                 ((False, err), emit (Logged Error (Ssh_error (host dc_config) err)) w1))"

section \<open>The notifier: \<open>send_telegram_alert\<close>\<close>

definition send_telegram_alert ::
  "environment \<Rightarrow> pair \<Rightarrow> rat \<Rightarrow> message \<Rightarrow> int \<Rightarrow> bool \<Rightarrow> world \<Rightarrow> world" where
  "send_telegram_alert env pair next_check msg attempt_count is_recovered w =
     (if \<not> truthy (getenv env ''TELEGRAM_BOT_TOKEN'') \<or> \<not> truthy (getenv env ''TELEGRAM_CHAT_ID'')
      then emit (Logged Error Telegram_missing) w
      else
        case telegram_post env (telegram_calls w) of
          (latency, outcome) \<Rightarrow>
            let attempt_info = (if 0 < attempt_count then Some attempt_count else None);
                w1 = emit (Telegram_message pair next_check msg attempt_info is_recovered)
                       (w\<lparr>clock := clock w + latency, telegram_calls := Suc (telegram_calls w)\<rparr>)
            in case outcome of
                 Telegram_ok \<Rightarrow> w1
               | Telegram_not_ok \<Rightarrow> emit (Logged Error Telegram_api_error) w1
               | Telegram_exception \<Rightarrow> emit (Logged Error Telegram_send_error) w1)"

section \<open>The monitor: \<open>main\<close>\<close>

text \<open>
  The values \<open>main\<close> parses at startup. \<open>backoff_factor\<close> is what \<open>BACKOFF_FACTOR\<close> holds;
  \<open>main\<close> replaces a factor below 1 by 1 before the loop starts.
\<close>

record config =
  base_interval :: int
  max_interval :: int
  backoff_factor :: rat
  check_attempts :: int
  check_retry_delay :: rat
  mappings :: "pair list"
  command :: string
  log_success :: bool

definition clamp_backoff :: "rat \<Rightarrow> rat" where
  "clamp_backoff factor = (if factor < 1 then 1 else factor)"

text \<open>The update of the interval after a failed check: \<open>min(current * factor, max)\<close>.\<close>

definition next_interval :: "rat \<Rightarrow> rat \<Rightarrow> rat \<Rightarrow> rat" where
  "next_interval current factor maximum = min (current * factor) maximum"

text \<open>The four dictionaries, all keyed by the pair.\<close>

record monitor_state =
  service_status :: "pair \<rightharpoonup> bool"
  next_checks :: "pair \<rightharpoonup> rat"
  current_intervals :: "pair \<rightharpoonup> rat"
  attempt_counters :: "pair \<rightharpoonup> int"

definition init_state :: "config \<Rightarrow> monitor_state" where
  "init_state cfg =
     \<lparr>service_status = map_of (map (\<lambda>pair. (pair, True)) (mappings cfg)),
      next_checks = map_of (map (\<lambda>pair. (pair, 0)) (mappings cfg)),
      current_intervals = map_of (map (\<lambda>pair. (pair, of_int (base_interval cfg))) (mappings cfg)),
      attempt_counters = map_of (map (\<lambda>pair. (pair, 0)) (mappings cfg))\<rparr>"

text \<open>\<open>next_checks[pair] = current_time + current_intervals[pair]\<close>\<close>

definition reschedule :: "rat \<Rightarrow> pair \<Rightarrow> monitor_state \<Rightarrow> error + monitor_state" where
  "reschedule current_time pair s =
     (case current_intervals s pair of
        None \<Rightarrow> Inl KeyError
      | Some interval \<Rightarrow>
          Inr (s\<lparr>next_checks := (next_checks s)(pair \<mapsto> current_time + interval)\<rparr>))"

text \<open>The branch \<open>if is_available\<close>: a recovery when the pair was marked unavailable.\<close>

definition on_available ::
  "config \<Rightarrow> environment \<Rightarrow> pair \<Rightarrow> world \<Rightarrow> monitor_state \<Rightarrow> error + world \<times> monitor_state" where
  "on_available cfg env pair w s =
     (case service_status s pair of
        None \<Rightarrow> Inl KeyError
      | Some status \<Rightarrow>
          if \<not> status then
            (case attempt_counters s pair of
               None \<Rightarrow> Inl KeyError
             | Some attempts \<Rightarrow>
                 let s1 = s\<lparr>service_status := (service_status s)(pair \<mapsto> True),
                            current_intervals :=
                              (current_intervals s)(pair \<mapsto> of_int (base_interval cfg))\<rparr>;
                     w1 = emit (Logged Info (Recovery_logged pair attempts)) w;
                     w2 = send_telegram_alert env pair (of_int (base_interval cfg))
                            (Recovery_msg pair attempts) attempts True w1
                 in Inr (w2, s1\<lparr>attempt_counters := (attempt_counters s1)(pair \<mapsto> 0)\<rparr>))
          else Inr (w, s))"

text \<open>
  The \<open>else\<close> branch: count the attempt, run the command unless the gate
  \<open>all(dc_config.values())\<close> refuses the configuration, lengthen the interval, alert.
\<close>

definition run_command ::
  "config \<Rightarrow> environment \<Rightarrow> pair \<Rightarrow> ssh_config \<Rightarrow> int \<Rightarrow> world \<Rightarrow> world" where
  "run_command cfg env pair dc_config attempts w =
     (if \<not> all_values dc_config then emit (Logged Error (Ssh_incomplete (fst pair))) w
      else
        let w1 = emit (Logged Info (Running_command (fst pair) attempts (command cfg))) w in
        case execute_ssh_command env dc_config (command cfg) pair w1 of
          ((success, output), w2) \<Rightarrow>
            emit (Logged Info (Command_result (fst pair) success attempts)) w2)"

definition on_unavailable ::
  "config \<Rightarrow> environment \<Rightarrow> pair \<Rightarrow> int \<Rightarrow> world \<Rightarrow> monitor_state
     \<Rightarrow> error + world \<times> monitor_state" where
  "on_unavailable cfg env pair attempts_made w s =
     (case attempt_counters s pair of
        None \<Rightarrow> Inl KeyError
      | Some old_attempts \<Rightarrow>
          let attempts = old_attempts + 1;
              s1 = s\<lparr>attempt_counters := (attempt_counters s)(pair \<mapsto> attempts)\<rparr>
          in case get_ssh_config env (fst pair) of
               Inl e \<Rightarrow> Inl e
             | Inr dc_config \<Rightarrow>
                 let w1 = run_command cfg env pair dc_config attempts w in
                 case current_intervals s1 pair of
                   None \<Rightarrow> Inl KeyError
                 | Some interval \<Rightarrow>
                     let factor = clamp_backoff (backoff_factor cfg);
                         new_interval = next_interval interval factor (of_int (max_interval cfg));
                         s2 = s1\<lparr>current_intervals :=
                                   (current_intervals s1)(pair \<mapsto> new_interval)\<rparr>
                     in case service_status s2 pair of
                          None \<Rightarrow> Inl KeyError
                        | Some status \<Rightarrow>
                            if status then
                              Inr (send_telegram_alert env pair new_interval
                                     (Broken_msg attempts_made (command cfg)) attempts False w1,
                                   s2\<lparr>service_status := (service_status s2)(pair \<mapsto> False)\<rparr>)
                            else
                              Inr (send_telegram_alert env pair new_interval
                                     (Still_down_msg attempts (command cfg) attempts_made factor)
                                     attempts False w1,
                                   s2))"

text \<open>The body of \<open>for pair in mappings\<close>, for the time \<open>current_time\<close> read at the top of the tick.\<close>

definition check_pair ::
  "config \<Rightarrow> environment \<Rightarrow> rat \<Rightarrow> pair \<Rightarrow> world \<times> monitor_state
     \<Rightarrow> error + world \<times> monitor_state" where
  "check_pair cfg env current_time pair ws =
     (case ws of
        (w, s) \<Rightarrow>
          case next_checks s pair of
            None \<Rightarrow> Inl KeyError
          | Some next_check \<Rightarrow>
              if current_time < next_check then Inr (w, s)
              else
                case getenv env (snd pair @ ''_URL'') of
                  None \<Rightarrow>
                    (case reschedule current_time pair s of
                       Inl e \<Rightarrow> Inl e
                     | Inr s' \<Rightarrow> Inr (emit (Logged Error (Url_missing (snd pair))) w, s'))
                | Some url \<Rightarrow>
                    if url = [] then
                      (case reschedule current_time pair s of
                         Inl e \<Rightarrow> Inl e
                       | Inr s' \<Rightarrow> Inr (emit (Logged Error (Url_missing (snd pair))) w, s'))
                    else
                      case check_service env url (check_attempts cfg) (check_retry_delay cfg) w of
                        (Inl e, w1) \<Rightarrow> Inl e
                      | (Inr (is_available, response_time, attempts_made), w1) \<Rightarrow>
                          let lvl = (if is_available
                                     then (if log_success cfg then Info else Debug)
                                     else Warning);
                              w2 = emit (Logged lvl (Status_msg pair url is_available
                                                       response_time attempts_made)) w1
                          in case (if is_available then on_available cfg env pair w2 s
                                   else on_unavailable cfg env pair attempts_made w2 s) of
                               Inl e \<Rightarrow> Inl e
                             | Inr (w3, s3) \<Rightarrow>
                                 (case reschedule current_time pair s3 of
                                    Inl e \<Rightarrow> Inl e
                                  | Inr s' \<Rightarrow> Inr (w3, s')))"

fun check_pairs ::
  "config \<Rightarrow> environment \<Rightarrow> rat \<Rightarrow> pair list \<Rightarrow> world \<times> monitor_state
     \<Rightarrow> error + world \<times> monitor_state" where
  "check_pairs cfg env current_time [] ws = Inr ws"
| "check_pairs cfg env current_time (pair # rest) ws =
     (case check_pair cfg env current_time pair ws of
        Inl e \<Rightarrow> Inl e
      | Inr ws' \<Rightarrow> check_pairs cfg env current_time rest ws')"

text \<open>One pass through the body of \<open>while True\<close>: the clock is read once, every pair is
  visited, and the loop sleeps five seconds.\<close>

definition main_tick ::
  "config \<Rightarrow> environment \<Rightarrow> world \<times> monitor_state \<Rightarrow> error + world \<times> monitor_state" where
  "main_tick cfg env ws =
     (case check_pairs cfg env (clock (fst ws)) (mappings cfg) ws of
        Inl e \<Rightarrow> Inl e
      | Inr (w', s') \<Rightarrow>
          (case time_sleep 5 w' of Inl e \<Rightarrow> Inl e | Inr w'' \<Rightarrow> Inr (w'', s')))"

text \<open>
  \<open>while True\<close> has no exit of its own: the only way out is an exception. The loop is
  modelled by its first \<open>n\<close> passes, for every \<open>n\<close>.
\<close>

fun main_loop ::
  "config \<Rightarrow> environment \<Rightarrow> nat \<Rightarrow> world \<times> monitor_state \<Rightarrow> error + world \<times> monitor_state" where
  "main_loop cfg env 0 ws = Inr ws"
| "main_loop cfg env (Suc n) ws =
     (case main_tick cfg env ws of
        Inl e \<Rightarrow> Inl e
      | Inr ws' \<Rightarrow> main_loop cfg env n ws')"

text \<open>The required variables \<open>main\<close> looks for before anything else; if one is missing it
  logs the list and returns without entering the loop.\<close>

definition required_vars :: "string list" where
  "required_vars =
     [''INTERVAL'', ''MAPPINGS'', ''TELEGRAM_BOT_TOKEN'', ''TELEGRAM_CHAT_ID'', ''COMMAND'']"

definition missing :: "environment \<Rightarrow> string list" where
  "missing env = filter (\<lambda>var. \<not> truthy (getenv env var)) required_vars"

definition main ::
  "config \<Rightarrow> environment \<Rightarrow> nat \<Rightarrow> world \<Rightarrow> error + world \<times> monitor_state option" where
  "main cfg env n w =
     (if missing env \<noteq> [] then Inr (emit (Logged Error (Missing_params (missing env))) w, None)
      else
        case main_loop cfg env n (emit (Logged Info Started) w, init_state cfg) of
          Inl e \<Rightarrow> Inl e
        | Inr (w', s') \<Rightarrow> Inr (w', Some s'))"

text \<open>How often \<open>execute_ssh_command\<close> has been called so far.\<close>

fun is_ssh_command :: "event \<Rightarrow> bool" where
  "is_ssh_command (Ssh_command h p u c cmd) = True"
| "is_ssh_command e = False"

definition ssh_invocations :: "world \<Rightarrow> nat" where
  "ssh_invocations w = length (filter is_ssh_command (trace w))"

section \<open>Auxiliary notions for the statements\<close>

text \<open>The pair has an entry in each of the four dictionaries.\<close>

definition entries :: "monitor_state \<Rightarrow> pair \<Rightarrow> bool" where
  "entries s p \<longleftrightarrow>
     service_status s p \<noteq> None \<and> next_checks s p \<noteq> None
     \<and> current_intervals s p \<noteq> None \<and> attempt_counters s p \<noteq> None"


text \<open>The keys of the four dictionaries are the configured pairs.\<close>

definition keys_are :: "config \<Rightarrow> monitor_state \<Rightarrow> bool" where
  "keys_are cfg s \<longleftrightarrow>
     dom (service_status s) = set (mappings cfg) \<and> dom (next_checks s) = set (mappings cfg)
     \<and> dom (current_intervals s) = set (mappings cfg)
     \<and> dom (attempt_counters s) = set (mappings cfg)"



text \<open>What can be observed of a result: the exception, the world, one entry of a dictionary.\<close>

definition raised :: "error + 'a \<Rightarrow> error option" where
  "raised r = (case r of Inl e \<Rightarrow> Some e | Inr x \<Rightarrow> None)"

definition final_world :: "error + world \<times> monitor_state \<Rightarrow> world option" where
  "final_world r = (case r of Inl e \<Rightarrow> None | Inr ws \<Rightarrow> Some (fst ws))"

definition lookup_after ::
  "(monitor_state \<Rightarrow> pair \<rightharpoonup> 'a) \<Rightarrow> pair \<Rightarrow> error + world \<times> monitor_state \<Rightarrow> 'a option" where
  "lookup_after field p r = (case r of Inl e \<Rightarrow> None | Inr ws \<Rightarrow> field (snd ws) p)"

section \<open>Example configurations\<close>

definition common_vars :: "string \<Rightarrow> string option" where
  "common_vars =
     [''api_URL'' \<mapsto> ''http://a'', ''TELEGRAM_BOT_TOKEN'' \<mapsto> ''t'', ''TELEGRAM_CHAT_ID'' \<mapsto> ''c'',
      ''INTERVAL'' \<mapsto> ''10'', ''MAPPINGS'' \<mapsto> ''dc1:api'', ''COMMAND'' \<mapsto> ''restart'']"

definition password_vars :: "string \<Rightarrow> string option" where
  "password_vars =
     common_vars(''dc1_SSH_HOST'' \<mapsto> ''h'', ''dc1_SSH_USERNAME'' \<mapsto> ''root'',
                 ''dc1_SSH_PASSWORD'' \<mapsto> ''pw'')"

definition full_vars :: "string \<Rightarrow> string option" where
  "full_vars = password_vars(''dc1_SSH_KEY_PATH'' \<mapsto> ''k'')"

definition key_vars :: "string \<Rightarrow> string option" where
  "key_vars =
     common_vars(''dc1_SSH_HOST'' \<mapsto> ''h'', ''dc1_SSH_USERNAME'' \<mapsto> ''root'',
                 ''dc1_SSH_KEY_PATH'' \<mapsto> ''k'')"

definition bad_port_vars :: "string \<Rightarrow> string option" where
  "bad_port_vars = full_vars(''dc1_SSH_PORT'' \<mapsto> ''abc'')"

text \<open>An environment in which every request takes \<open>latency\<close> seconds and ends the same way.\<close>

definition example_env ::
  "(string \<Rightarrow> string option) \<Rightarrow> rat \<Rightarrow> http_outcome \<Rightarrow> environment" where
  "example_env vars latency outcome =
     \<lparr>getenv = vars,
      http_get = (\<lambda>url n. (latency, outcome)),
      ssh_session = (\<lambda>n. (1, Ssh_output ''done'')),
      telegram_post = (\<lambda>n. (1 / 2, Telegram_ok))\<rparr>"

text \<open>An environment in which the request, the SSH session and the notification all raise.\<close>

definition failing_env :: environment where
  "failing_env =
     \<lparr>getenv = full_vars,
      http_get = (\<lambda>url n. (10, Http_exception)),
      ssh_session = (\<lambda>n. (1, Ssh_exception ''refused'')),
      telegram_post = (\<lambda>n. (1, Telegram_exception))\<rparr>"

definition example_cfg :: "int \<Rightarrow> int \<Rightarrow> pair list \<Rightarrow> config" where
  "example_cfg base maximum pairs =
     \<lparr>base_interval = base, max_interval = maximum, backoff_factor = 2, check_attempts = 3,
      check_retry_delay = 1, mappings = pairs, command = ''restart'', log_success = False\<rparr>"

definition dc1_api :: pair where
  "dc1_api = (''dc1'', ''api'')"

definition start_world :: world where
  "start_world = \<lparr>clock = 0, http_calls = 0, ssh_calls = 0, telegram_calls = 0, trace = []\<rparr>"

text \<open>A state in which the pair is marked unavailable after three failed checks.\<close>

definition down_state :: monitor_state where
  "down_state =
     \<lparr>service_status = [dc1_api \<mapsto> False], next_checks = [dc1_api \<mapsto> 60],
      current_intervals = [dc1_api \<mapsto> 60], attempt_counters = [dc1_api \<mapsto> 3]\<rparr>"

lemmas evaluation =
  check_service_def attempt_body_def requests_get_def time_sleep_def emit_def attempt_ok_def
  response_ok_def Let_def truthy_def py_int_def is_space_def is_digit_def digit_value_def
  strip_def port_setting_def get_ssh_config_def all_values_def choose_credential_def
  execute_ssh_command_def send_telegram_alert_def clamp_backoff_def next_interval_def
  init_state_def reschedule_def on_available_def run_command_def on_unavailable_def
  check_pair_def main_tick_def raised_def final_world_def lookup_after_def
  common_vars_def password_vars_def key_vars_def full_vars_def bad_port_vars_def
  example_env_def failing_env_def example_cfg_def dc1_api_def start_world_def down_state_def

section \<open>The prober\<close>







lemma attempt_body_no_raise:
  "0 \<le> retry_delay \<Longrightarrow>
     \<exists>r w'. attempt_body env url max_attempts retry_delay attempt w = (Inr r, w')"
  by (simp add: attempt_body_def requests_get_def time_sleep_def Let_def split: prod.splits)



lemma check_loop_no_raise:
  "0 \<le> retry_delay \<Longrightarrow>
     \<exists>r w'. check_loop env url max_attempts retry_delay attempt w = (Inr r, w')"
proof (induction env url max_attempts retry_delay attempt w rule: check_loop.induct)
  case (1 env url max_attempts retry_delay attempt w)
  show ?case
  proof (cases "max_attempts < attempt")
    case True
    then show ?thesis by auto
  next
    case False
    from attempt_body_no_raise [OF "1.prems"]
    obtain opt w1 where
      body: "attempt_body env url max_attempts retry_delay attempt w = (Inr opt, w1)"
      by blast
    show ?thesis
    proof (cases opt)
      case None
      from "1.IH" [OF False body [symmetric] refl None "1.prems"] False body None
      show ?thesis by simp
    next
      case (Some r)
      with False body show ?thesis by (cases r) auto
    qed
  qed
qed





section \<open>The monitor: one pair\<close>



lemma reschedule_total:
  "current_intervals s p \<noteq> None \<Longrightarrow> \<exists>s'. reschedule t p s = Inr s'"
  by (auto simp: reschedule_def split: option.splits)

lemma reschedule_dom:
  "reschedule t p s = Inr s' \<Longrightarrow> next_checks s p \<noteq> None \<Longrightarrow>
     dom (service_status s') = dom (service_status s) \<and> dom (next_checks s') = dom (next_checks s)
     \<and> dom (current_intervals s') = dom (current_intervals s)
     \<and> dom (attempt_counters s') = dom (attempt_counters s)"
  by (clarsimp simp: reschedule_def insert_absorb domIff split: option.splits)


lemma on_available_own:
  "on_available cfg env p w s = Inr (w', s') \<Longrightarrow> current_intervals s p = Some ci \<Longrightarrow>
     (current_intervals s' p = Some ci
        \<or> current_intervals s' p = Some (of_int (base_interval cfg)))
     \<and> next_checks s' p = next_checks s p"
  by (auto simp: on_available_def Let_def split: option.splits if_splits)

lemma on_available_total:
  "entries s p \<Longrightarrow> \<exists>w' s'. on_available cfg env p w s = Inr (w', s')"
  by (auto simp: on_available_def entries_def Let_def split: option.splits if_splits)

lemma on_available_dom:
  "on_available cfg env p w s = Inr (w', s') \<Longrightarrow> entries s p \<Longrightarrow>
     dom (service_status s') = dom (service_status s) \<and> dom (next_checks s') = dom (next_checks s)
     \<and> dom (current_intervals s') = dom (current_intervals s)
     \<and> dom (attempt_counters s') = dom (attempt_counters s)"
  by (clarsimp simp: on_available_def entries_def Let_def insert_absorb domIff
                split: option.splits if_splits)


lemma on_unavailable_own:
  "on_unavailable cfg env p k w s = Inr (w', s') \<Longrightarrow> current_intervals s p = Some ci \<Longrightarrow>
     current_intervals s' p =
       Some (next_interval ci (clamp_backoff (backoff_factor cfg)) (of_int (max_interval cfg)))
     \<and> next_checks s' p = next_checks s p"
  by (auto simp: on_unavailable_def Let_def split: option.splits if_splits sum.splits)

lemma on_unavailable_total:
  "entries s p \<Longrightarrow> py_int (port_setting env (fst p)) \<noteq> None \<Longrightarrow>
     \<exists>w' s'. on_unavailable cfg env p k w s = Inr (w', s')"
  by (auto simp: on_unavailable_def entries_def get_ssh_config_def Let_def
           split: option.splits if_splits sum.splits)

lemma on_unavailable_dom:
  "on_unavailable cfg env p k w s = Inr (w', s') \<Longrightarrow> entries s p \<Longrightarrow>
     dom (service_status s') = dom (service_status s) \<and> dom (next_checks s') = dom (next_checks s)
     \<and> dom (current_intervals s') = dom (current_intervals s)
     \<and> dom (attempt_counters s') = dom (attempt_counters s)"
  by (clarsimp simp: on_unavailable_def entries_def Let_def insert_absorb domIff
                split: option.splits if_splits sum.splits)

lemma check_pair_cases [consumes 1, case_names skip no_url up down]:
  assumes "check_pair cfg env t p (w, s) = Inr (w', s')"
  obtains
    nc where "next_checks s p = Some nc" "t < nc" "w' = w" "s' = s"
  | nc where "next_checks s p = Some nc" "\<not> t < nc"
      "\<not> truthy (getenv env (snd p @ ''_URL''))"
      "w' = emit (Logged Error (Url_missing (snd p))) w" "reschedule t p s = Inr s'"
  | nc url rt k w1 s3 where "next_checks s p = Some nc" "\<not> t < nc"
      "getenv env (snd p @ ''_URL'') = Some url" "url \<noteq> []"
      "check_service env url (check_attempts cfg) (check_retry_delay cfg) w
         = (Inr (True, rt, k), w1)"
      "on_available cfg env p
         (emit (Logged (if log_success cfg then Info else Debug) (Status_msg p url True rt k)) w1)
         s = Inr (w', s3)"
      "reschedule t p s3 = Inr s'"
  | nc url rt k w1 s3 where "next_checks s p = Some nc" "\<not> t < nc"
      "getenv env (snd p @ ''_URL'') = Some url" "url \<noteq> []"
      "check_service env url (check_attempts cfg) (check_retry_delay cfg) w
         = (Inr (False, rt, k), w1)"
      "on_unavailable cfg env p k (emit (Logged Warning (Status_msg p url False rt k)) w1) s
         = Inr (w', s3)"
      "reschedule t p s3 = Inr s'"
  using assms unfolding check_pair_def
  by (auto simp: Let_def truthy_def split: option.splits if_splits sum.splits prod.splits)





lemma keys_are_entries: "keys_are cfg s \<Longrightarrow> p \<in> set (mappings cfg) \<Longrightarrow> entries s p"
  by (auto simp: keys_are_def entries_def)

lemma check_pair_keys:
  assumes "check_pair cfg env t p (w, s) = Inr (w', s')" and "keys_are cfg s"
  shows "keys_are cfg s'"
proof -
  from assms(1) have present: "next_checks s p \<noteq> None"
    by (cases rule: check_pair_cases) simp_all
  with assms(2) have "p \<in> set (mappings cfg)" by (auto simp: keys_are_def)
  with assms(2) have e: "entries s p" by (rule keys_are_entries)
  from assms(1) show ?thesis
  proof (cases rule: check_pair_cases)
    case (skip nc)
    with assms(2) show ?thesis by simp
  next
    case (no_url nc)
    from reschedule_dom [OF no_url(5) present] assms(2) show ?thesis by (simp add: keys_are_def)
  next
    case (up nc url rt k w1 s3)
    from on_available_dom [OF up(6) e] have d: "dom (service_status s3) = dom (service_status s)"
      "dom (next_checks s3) = dom (next_checks s)"
      "dom (current_intervals s3) = dom (current_intervals s)"
      "dom (attempt_counters s3) = dom (attempt_counters s)" by simp_all
    from d(2) present have "next_checks s3 p \<noteq> None" by (auto simp: dom_def)
    from reschedule_dom [OF up(7) this] d assms(2) show ?thesis by (simp add: keys_are_def)
  next
    case (down nc url rt k w1 s3)
    from on_unavailable_dom [OF down(6) e] have d: "dom (service_status s3) = dom (service_status s)"
      "dom (next_checks s3) = dom (next_checks s)"
      "dom (current_intervals s3) = dom (current_intervals s)"
      "dom (attempt_counters s3) = dom (attempt_counters s)" by simp_all
    from d(2) present have "next_checks s3 p \<noteq> None" by (auto simp: dom_def)
    from reschedule_dom [OF down(7) this] d assms(2) show ?thesis by (simp add: keys_are_def)
  qed
qed

lemma check_service_no_raise:
  "0 \<le> retry_delay \<Longrightarrow> \<exists>r w'. check_service env url max_attempts retry_delay w = (Inr r, w')"
  unfolding check_service_def by (rule check_loop_no_raise)

lemma check_pair_total:
  assumes e: "entries s p" and port: "py_int (port_setting env (fst p)) \<noteq> None"
    and delay: "0 \<le> check_retry_delay cfg"
  shows "\<exists>w' s'. check_pair cfg env t p (w, s) = Inr (w', s')"
proof -
  from e obtain nc where nc: "next_checks s p = Some nc" by (auto simp: entries_def)
  from e have ci: "current_intervals s p \<noteq> None" by (simp add: entries_def)
  show ?thesis
  proof (cases "t < nc")
    case True
    with nc show ?thesis by (simp add: check_pair_def)
  next
    case due: False
    from reschedule_total [OF ci] obtain s0 where s0: "reschedule t p s = Inr s0" by blast
    show ?thesis
    proof (cases "truthy (getenv env (snd p @ ''_URL''))")
      case False
      with nc due s0 show ?thesis
        by (auto simp: check_pair_def truthy_def split: option.splits)
    next
      case True
      then obtain url where url: "getenv env (snd p @ ''_URL'') = Some url" "url \<noteq> []"
        by (auto simp: truthy_def split: option.splits)
      from check_service_no_raise [OF delay]
      obtain av rt k w1 where
        cs: "check_service env url (check_attempts cfg) (check_retry_delay cfg) w
               = (Inr (av, rt, k), w1)"
        by (metis prod_cases3)
      show ?thesis
      proof (cases av)
        case True
        define w2 where
          "w2 = emit (Logged (if log_success cfg then Info else Debug)
                        (Status_msg p url True rt k)) w1"
        from on_available_total [OF e] obtain w3 s3 where
          br: "on_available cfg env p w2 s = Inr (w3, s3)" by blast
        from on_available_own [OF br] ci have "current_intervals s3 p \<noteq> None" by auto
        from reschedule_total [OF this] obtain s4 where "reschedule t p s3 = Inr s4" by blast
        with nc due url cs br True show ?thesis
          by (simp add: check_pair_def w2_def)
      next
        case False
        define w2 where "w2 = emit (Logged Warning (Status_msg p url False rt k)) w1"
        from on_unavailable_total [OF e port] obtain w3 s3 where
          br: "on_unavailable cfg env p k w2 s = Inr (w3, s3)" by blast
        from on_unavailable_own [OF br] ci have "current_intervals s3 p \<noteq> None" by auto
        from reschedule_total [OF this] obtain s4 where "reschedule t p s3 = Inr s4" by blast
        with nc due url cs br False show ?thesis
          by (simp add: check_pair_def w2_def)
      qed
    qed
  qed
qed

section \<open>The monitor: a tick, the loop\<close>

lemma check_pairs_preserves:
  assumes step: "\<And>p w s w' s'. check_pair cfg env t p (w, s) = Inr (w', s') \<Longrightarrow> I s \<Longrightarrow> I s'"
    and run: "check_pairs cfg env t xs (w, s) = Inr (w', s')" and start: "I s"
  shows "I s'"
  using run start
proof (induction xs arbitrary: w s)
  case Nil
  then show ?case by simp
next
  case (Cons p xs)
  from Cons.prems(1) obtain w1 s1 where
    one: "check_pair cfg env t p (w, s) = Inr (w1, s1)"
    and rest: "check_pairs cfg env t xs (w1, s1) = Inr (w', s')"
    by (auto split: sum.splits)
  from step [OF one Cons.prems(2)] have "I s1" .
  from Cons.IH [OF rest this] show ?case .
qed

lemma main_tick_preserves:
  assumes step: "\<And>t p w s w' s'. check_pair cfg env t p (w, s) = Inr (w', s') \<Longrightarrow> I s \<Longrightarrow> I s'"
    and run: "main_tick cfg env (w, s) = Inr (w', s')" and start: "I s"
  shows "I s'"
proof -
  from run obtain w1 where "check_pairs cfg env (clock w) (mappings cfg) (w, s) = Inr (w1, s')"
    by (auto simp: main_tick_def split: sum.splits)
  from check_pairs_preserves [of cfg env "clock w" I, OF step this start] show ?thesis .
qed

lemma main_loop_preserves:
  assumes step: "\<And>t p w s w' s'. check_pair cfg env t p (w, s) = Inr (w', s') \<Longrightarrow> I s \<Longrightarrow> I s'"
    and run: "main_loop cfg env n (w, s) = Inr (w', s')" and start: "I s"
  shows "I s'"
  using run start
proof (induction n arbitrary: w s)
  case 0
  then show ?case by simp
next
  case (Suc n)
  from Suc.prems(1) obtain w1 s1 where
    one: "main_tick cfg env (w, s) = Inr (w1, s1)"
    and rest: "main_loop cfg env n (w1, s1) = Inr (w', s')"
    by (auto split: sum.splits)
  from main_tick_preserves [of cfg env I, OF step one Suc.prems(2)] have "I s1" .
  from Suc.IH [OF rest this] show ?case .
qed

lemma map_of_constant:
  "map_of (map (\<lambda>p. (p, v)) xs) q = (if q \<in> set xs then Some v else None)"
  by (induction xs) auto

lemma init_state_keys: "keys_are cfg (init_state cfg)"
  by (auto simp: keys_are_def init_state_def map_of_constant dom_def)






lemma check_pairs_total:
  assumes delay: "0 \<le> check_retry_delay cfg"
    and ports: "\<forall>p \<in> set xs. py_int (port_setting env (fst p)) \<noteq> None"
    and sub: "set xs \<subseteq> set (mappings cfg)"
    and keys: "keys_are cfg s"
  shows "\<exists>w' s'. check_pairs cfg env t xs (w, s) = Inr (w', s')"
  using ports sub keys
proof (induction xs arbitrary: w s)
  case Nil
  then show ?case by simp
next
  case (Cons p xs)
  from Cons.prems have "entries s p" by (auto intro: keys_are_entries)
  from check_pair_total [OF this _ delay, of env t w] Cons.prems(1)
  obtain w1 s1 where one: "check_pair cfg env t p (w, s) = Inr (w1, s1)" by auto
  from check_pair_keys [OF one Cons.prems(3)] have "keys_are cfg s1" .
  from Cons.IH [OF _ _ this, of w1] Cons.prems(1,2)
  obtain w' s' where "check_pairs cfg env t xs (w1, s1) = Inr (w', s')" by auto
  with one show ?case by simp
qed

lemma main_tick_total:
  assumes delay: "0 \<le> check_retry_delay cfg"
    and ports: "\<forall>p \<in> set (mappings cfg). py_int (port_setting env (fst p)) \<noteq> None"
    and keys: "keys_are cfg s"
  shows "\<exists>w' s'. main_tick cfg env (w, s) = Inr (w', s')"
proof -
  from check_pairs_total [OF delay ports subset_refl keys]
  obtain w1 s1 where "check_pairs cfg env (clock w) (mappings cfg) (w, s) = Inr (w1, s1)"
    by blast
  then show ?thesis by (simp add: main_tick_def time_sleep_def)
qed

lemma main_loop_total:
  assumes delay: "0 \<le> check_retry_delay cfg"
    and ports: "\<forall>p \<in> set (mappings cfg). py_int (port_setting env (fst p)) \<noteq> None"
    and keys: "keys_are cfg s"
  shows "\<exists>w' s'. main_loop cfg env n (w, s) = Inr (w', s')"
  using keys
proof (induction n arbitrary: w s)
  case 0
  then show ?case by simp
next
  case (Suc n)
  from main_tick_total [OF delay ports Suc.prems]
  obtain w1 s1 where one: "main_tick cfg env (w, s) = Inr (w1, s1)" by blast
  from main_tick_preserves [of cfg env "keys_are cfg", OF check_pair_keys one Suc.prems]
  have "keys_are cfg s1" .
  from Suc.IH [OF this] one show ?case by simp
qed

section \<open>Claims about the monitor\<close>


lemma main_loop_3:
  "main_loop cfg env 3 ws =
     (case main_tick cfg env ws of
        Inl e \<Rightarrow> Inl e
      | Inr ws1 \<Rightarrow>
          (case main_tick cfg env ws1 of Inl e \<Rightarrow> Inl e | Inr ws2 \<Rightarrow> main_tick cfg env ws2))"
  by (simp add: numeral_3_eq_3 split: sum.splits)

lemma missing_none:
  "missing env = [] \<Longrightarrow>
     truthy (getenv env ''TELEGRAM_BOT_TOKEN'') \<and> truthy (getenv env ''TELEGRAM_CHAT_ID'')"
  by (simp add: missing_def required_vars_def split: if_splits)

lemma send_telegram_alert_posts:
  assumes "truthy (getenv env ''TELEGRAM_BOT_TOKEN'')" and "truthy (getenv env ''TELEGRAM_CHAT_ID'')"
  shows "Telegram_message p nxt msg (if 0 < c then Some c else None) rec
           \<in> set (trace (send_telegram_alert env p nxt msg c rec w))"
  using assms
  by (auto simp: send_telegram_alert_def emit_def Let_def
           split: prod.splits telegram_outcome.splits)

text \<open>
  C1. A pair is due, its URL is configured, the pair is marked unavailable and the probe
  succeeds. Then the check ends normally; a "recovered" notification has been posted that
  carries the attempt counter as it stood before the reset; and afterwards the pair is marked
  available, its counter is 0 and its interval is the base interval, whatever the interval
  was before (nothing is assumed about it). The required variables are present, as \<open>main\<close>
  checks before it enters the loop.
\<close>

theorem recovery_resets:
  assumes "next_checks s p = Some nc" and "\<not> t < nc"
    and "getenv env (snd p @ ''_URL'') = Some url" and "url \<noteq> []"
    and "check_service env url (check_attempts cfg) (check_retry_delay cfg) w
           = (Inr (True, rt, k), w1)"
    and "service_status s p = Some False" and "attempt_counters s p = Some c"
    and "missing env = []"
  shows "\<exists>w' s'. check_pair cfg env t p (w, s) = Inr (w', s')
           \<and> Telegram_message p (of_int (base_interval cfg)) (Recovery_msg p c)
                (if 0 < c then Some c else None) True \<in> set (trace w')
           \<and> service_status s' p = Some True
           \<and> attempt_counters s' p = Some 0
           \<and> current_intervals s' p = Some (of_int (base_interval cfg))
           \<and> next_checks s' p = Some (t + of_int (base_interval cfg))"
proof -
  define w2 where
    "w2 = emit (Logged Info (Recovery_logged p c))
            (emit (Logged (if log_success cfg then Info else Debug) (Status_msg p url True rt k)) w1)"
  define w3 where
    "w3 = send_telegram_alert env p (of_int (base_interval cfg)) (Recovery_msg p c) c True w2"
  define s3 where
    "s3 = s\<lparr>service_status := (service_status s)(p \<mapsto> True),
            current_intervals := (current_intervals s)(p \<mapsto> of_int (base_interval cfg)),
            attempt_counters := (attempt_counters s)(p \<mapsto> 0),
            next_checks := (next_checks s)(p \<mapsto> t + of_int (base_interval cfg))\<rparr>"
  have run: "check_pair cfg env t p (w, s) = Inr (w3, s3)"
    using assms(1-7)
    by (simp add: check_pair_def on_available_def reschedule_def Let_def w2_def w3_def s3_def)
  from missing_none [OF assms(8)]
  have "Telegram_message p (of_int (base_interval cfg)) (Recovery_msg p c)
          (if 0 < c then Some c else None) True \<in> set (trace w3)"
    unfolding w3_def by (intro send_telegram_alert_posts) simp_all
  with run show ?thesis by (simp add: s3_def)
qed

theorem recovery_resets_witness:
  "missing (example_env full_vars (1 / 4) (Http_status 200)) = []
   \<and> lookup_after attempt_counters dc1_api
       (check_pair (example_cfg 10 60 [dc1_api]) (example_env full_vars (1 / 4) (Http_status 200))
          60 dc1_api (start_world, down_state)) = Some 0
   \<and> lookup_after current_intervals dc1_api
       (check_pair (example_cfg 10 60 [dc1_api]) (example_env full_vars (1 / 4) (Http_status 200))
          60 dc1_api (start_world, down_state)) = Some 10
   \<and> lookup_after next_checks dc1_api
       (check_pair (example_cfg 10 60 [dc1_api]) (example_env full_vars (1 / 4) (Http_status 200))
          60 dc1_api (start_world, down_state)) = Some 70
   \<and> map_option trace
       (final_world
          (check_pair (example_cfg 10 60 [dc1_api])
             (example_env full_vars (1 / 4) (Http_status 200)) 60 dc1_api
             (start_world, down_state)))
       = Some [Http_request ''http://a'',
               Logged Debug (Status_msg dc1_api ''http://a'' True 250 1),
               Logged Info (Recovery_logged dc1_api 3),
               Telegram_message dc1_api 10 (Recovery_msg dc1_api 3) (Some 3) True]"
proof -
  let ?cfg = "example_cfg 10 60 [dc1_api]"
  let ?env = "example_env full_vars (1 / 4) (Http_status 200)"
  have r: "py_round (1 / 4 * 1000) 2 = 250" by (simp add: py_round_def Let_def)
  have m: "missing ?env = []"
    by (simp add: missing_def required_vars_def evaluation)
  have cs: "check_service ?env ''http://a'' (check_attempts ?cfg) (check_retry_delay ?cfg) start_world
              = (Inr (True, 250, 1),
                 \<lparr>clock = 1 / 4, http_calls = 1, ssh_calls = 0, telegram_calls = 0,
                    trace = [Http_request ''http://a'']\<rparr>)"
    using r by (simp add: evaluation)
  have "\<exists>w' s'. check_pair ?cfg ?env 60 dc1_api (start_world, down_state) = Inr (w', s')
           \<and> Telegram_message dc1_api (of_int (base_interval ?cfg)) (Recovery_msg dc1_api 3)
                (if 0 < (3::int) then Some 3 else None) True \<in> set (trace w')
           \<and> service_status s' dc1_api = Some True
           \<and> attempt_counters s' dc1_api = Some 0
           \<and> current_intervals s' dc1_api = Some (of_int (base_interval ?cfg))
           \<and> next_checks s' dc1_api = Some (60 + of_int (base_interval ?cfg))"
    by (rule recovery_resets [where s = down_state and p = dc1_api and t = 60 and nc = 60
                                   and c = 3, OF _ _ _ _ cs _ _ m])
       (simp_all add: down_state_def evaluation)
  then have vals: "lookup_after attempt_counters dc1_api
                (check_pair ?cfg ?env 60 dc1_api (start_world, down_state)) = Some 0"
     "lookup_after current_intervals dc1_api
                (check_pair ?cfg ?env 60 dc1_api (start_world, down_state)) = Some 10"
     "lookup_after next_checks dc1_api
                (check_pair ?cfg ?env 60 dc1_api (start_world, down_state)) = Some 70"
    by (auto simp: lookup_after_def example_cfg_def)
  have "map_option trace
       (final_world (check_pair ?cfg ?env 60 dc1_api (start_world, down_state)))
       = Some [Http_request ''http://a'',
               Logged Debug (Status_msg dc1_api ''http://a'' True 250 1),
               Logged Info (Recovery_logged dc1_api 3),
               Telegram_message dc1_api 10 (Recovery_msg dc1_api 3) (Some 3) True]"
    using r by (simp add: evaluation)
  with m vals show ?thesis by simp
qed


lemma ssh_invocations_update [simp]:
  "ssh_invocations (w\<lparr>clock := c\<rparr>) = ssh_invocations w"
  "ssh_invocations (w\<lparr>http_calls := n\<rparr>) = ssh_invocations w"
  "ssh_invocations (w\<lparr>ssh_calls := n\<rparr>) = ssh_invocations w"
  "ssh_invocations (w\<lparr>telegram_calls := n\<rparr>) = ssh_invocations w"
  by (simp_all add: ssh_invocations_def)





















text \<open>
  When the retry delay is not negative and the port setting of every site is an integer
  literal, no pass of the loop raises, whatever the requests, the SSH sessions and the
  notifications do.
\<close>

lemma main_loop_never_raises:
  assumes "0 \<le> check_retry_delay cfg"
    and "\<forall>p \<in> set (mappings cfg). py_int (port_setting env (fst p)) \<noteq> None"
  shows "raised (main_loop cfg env n (w, init_state cfg)) = None
       \<and> (\<exists>w' s'. main_loop cfg env n (w, init_state cfg) = Inr (w', s') \<and> keys_are cfg s')"
proof -
  from main_loop_total [OF assms init_state_keys]
  obtain w' s' where run: "main_loop cfg env n (w, init_state cfg) = Inr (w', s')" by blast
  from main_loop_preserves [of cfg env "keys_are cfg", OF check_pair_keys run init_state_keys]
  have "keys_are cfg s'" .
  with run show ?thesis by (simp add: raised_def)
qed

lemma main_loop_never_raises_example:
  "(0::rat) \<le> check_retry_delay (example_cfg 10 60 [dc1_api])
   \<and> py_int (port_setting failing_env ''dc1'') = Some 22
   \<and> raised (main_loop (example_cfg 10 60 [dc1_api]) failing_env 3
                (start_world, init_state (example_cfg 10 60 [dc1_api]))) = None
   \<and> map_option ssh_calls
        (final_world (main_loop (example_cfg 10 60 [dc1_api]) failing_env 3
                        (start_world, init_state (example_cfg 10 60 [dc1_api])))) = Some 2"
proof -
  let ?cfg = "example_cfg 10 60 [dc1_api]"
  have d: "0 \<le> check_retry_delay ?cfg" by (simp add: example_cfg_def)
  have port: "py_int (port_setting failing_env ''dc1'') = Some 22"
    by (simp add: evaluation)
  then have ports: "\<forall>p \<in> set (mappings ?cfg). py_int (port_setting failing_env (fst p)) \<noteq> None"
    by (simp add: example_cfg_def dc1_api_def)
  have calls: "map_option ssh_calls
        (final_world (main_loop ?cfg failing_env 3 (start_world, init_state ?cfg))) = Some 2"
    by (simp add: main_loop_3 evaluation)
  from main_loop_never_raises [OF d ports, of 3 start_world] d port calls show ?thesis by simp
qed

text \<open>
  C6. The code at a failing input: \<open>dc1_SSH_PORT\<close> holds text that \<open>int\<close> rejects and the
  probe of a pair of that site fails. \<open>get_ssh_config\<close> raises ValueError outside every
  \<open>try\<close>, and the exception leaves the loop in its first pass.
\<close>

theorem loop_stops_on_malformed_port:
  "py_int (port_setting (example_env bad_port_vars 10 Http_exception) ''dc1'') = None
   \<and> raised (main_loop (example_cfg 10 60 [dc1_api])
               (example_env bad_port_vars 10 Http_exception) (Suc 0)
               (start_world, init_state (example_cfg 10 60 [dc1_api])))
       = Some ValueError"
  by (simp add: evaluation)

text \<open>
  C7. The code at a failing input: a site with host, user name and password but no key
  path. \<open>execute_ssh_command\<close> would use the password, but the gate in \<open>main\<close> asks for
  every value of the configuration, the key path included: the command is skipped and the
  incomplete configuration is logged. A site with a key path and no password is skipped too.
\<close>

theorem password_only_site_skipped:
  "get_ssh_config (example_env password_vars 10 (Http_status 503)) ''dc1''
     = Inr \<lparr>host = Some ''h'', port = 22, username = Some ''root'', password = Some ''pw'',
            key = None\<rparr>
   \<and> choose_credential \<lparr>host = Some ''h'', port = 22, username = Some ''root'',
                         password = Some ''pw'', key = None\<rparr> = Password (Some ''pw'')
   \<and> map_option trace
       (final_world (check_pair (example_cfg 10 60 [dc1_api])
                       (example_env password_vars 10 (Http_status 503)) 0 dc1_api
                       (start_world, init_state (example_cfg 10 60 [dc1_api]))))
     = Some [Http_request ''http://a'', Logged Warning (Attempt_status ''http://a'' 1 3 503),
             Slept 1,
             Http_request ''http://a'', Logged Warning (Attempt_status ''http://a'' 2 3 503),
             Slept 1,
             Http_request ''http://a'', Logged Warning (Attempt_status ''http://a'' 3 3 503),
             Logged Warning (Status_msg dc1_api ''http://a'' False 0 3),
             Logged Error (Ssh_incomplete ''dc1''),
             Telegram_message dc1_api 20 (Broken_msg 3 ''restart'') (Some 1) False]
   \<and> map_option ssh_invocations
       (final_world (check_pair (example_cfg 10 60 [dc1_api])
                       (example_env key_vars 10 (Http_status 503)) 0 dc1_api
                       (start_world, init_state (example_cfg 10 60 [dc1_api])))) = Some 0"
  by (simp add: evaluation ssh_invocations_def)





end
